theory Spec2Isabelle
  imports Main
begin

section \<open>Legacy problem import: scripts/import-legacy-problems.py\<close>

text \<open>
  The script reads two spreadsheets with pandas, resolves the human-entered names of five
  role columns against the roster of the \<open>experts\<close> table, and upserts one row per sheet row
  into the \<open>problems\<close> table. The model keeps the script's function names and its order of
  evaluation. Exceptions are values of \<open>py_error\<close>; a function that can raise returns
  \<open>py_error + 'a\<close> with \<open>Inl\<close> for the raise.
\<close>

subsection \<open>Python strings\<close>

text \<open>
  Strings are lists of characters, restricted to ASCII: \<open>str.lower\<close> maps \<open>A\<close>..\<open>Z\<close> to
  \<open>a\<close>..\<open>z\<close> and leaves every other character alone, and the whitespace of \<open>str.strip\<close>
  and \<open>str.split\<close> is the ASCII part of \<open>str.isspace\<close>: the codes 9 to 13 and 28 to 32.
\<close>

definition is_space :: "char \<Rightarrow> bool" where
  "is_space c = (let n = (of_char c :: nat) in (9 \<le> n \<and> n \<le> 13) \<or> (28 \<le> n \<and> n \<le> 32))"

definition lower_char :: "char \<Rightarrow> char" where
  "lower_char c =
     (case map_of (zip ''ABCDEFGHIJKLMNOPQRSTUVWXYZ'' ''abcdefghijklmnopqrstuvwxyz'') c of
        None \<Rightarrow> c
      | Some l \<Rightarrow> l)"

definition py_lower :: "string \<Rightarrow> string" where
  "py_lower s = map lower_char s"

definition py_strip :: "string \<Rightarrow> string" where
  "py_strip s = rev (dropWhile is_space (rev (dropWhile is_space s)))"

text \<open>
  \<open>s.split()\<close> with no separator: the maximal runs of non-whitespace characters, in order.
  \<open>split_from cur s\<close> scans \<open>s\<close> with the characters of the token being read in \<open>cur\<close>
  (reversed).
\<close>

fun split_from :: "string \<Rightarrow> string \<Rightarrow> string list" where
  "split_from cur [] = (if cur = [] then [] else [rev cur])"
| "split_from cur (c # cs) =
     (if is_space c then (if cur = [] then split_from [] cs else rev cur # split_from [] cs)
      else split_from (c # cur) cs)"

definition py_split :: "string \<Rightarrow> string list" where
  "py_split s = split_from [] s"

subsection \<open>Exceptions\<close>

text \<open>
  The exceptions the script can raise inside its functions. \<open>IndexError\<close> is the one of
  \<open>xs[0]\<close> on an empty list; \<open>KeyError k\<close> is the one of \<open>row[k]\<close> for a label the row does
  not have; \<open>ValueError m\<close> carries its message; \<open>DatabaseError m\<close> is whatever
  \<open>cursor.execute\<close> raises, with its message.
\<close>

datatype py_error = IndexError | KeyError string | ValueError string | DatabaseError string

subsection \<open>The roster and the lookup table\<close>

type_synonym expert_map = "string \<rightharpoonup> int"

text \<open>\<open>xs[0]\<close> on a Python list.\<close>

definition item0 :: "'a list \<Rightarrow> py_error + 'a" where
  "item0 xs = (case xs of [] \<Rightarrow> Inl IndexError | x # _ \<Rightarrow> Inr x)"

text \<open>
  One turn of the loop of \<open>get_expert_id_map\<close>: the lowercased full name is stored
  unconditionally, the first token only when the table (as just updated) does not have it.
\<close>

definition register_expert :: "expert_map \<Rightarrow> int \<times> string \<Rightarrow> py_error + expert_map" where
  "register_expert name_map e =
     (let name_lower = py_lower (snd e);
          name_map1 = name_map(name_lower \<mapsto> fst e)
      in case item0 (py_split name_lower) of
           Inl err \<Rightarrow> Inl err
         | Inr first_name \<Rightarrow>
             (if name_map1 first_name = None then Inr (name_map1(first_name \<mapsto> fst e))
              else Inr name_map1))"

fun register_all :: "expert_map \<Rightarrow> (int \<times> string) list \<Rightarrow> py_error + expert_map" where
  "register_all name_map [] = Inr name_map"
| "register_all name_map (e # es) =
     (case register_expert name_map e of
        Inl err \<Rightarrow> Inl err
      | Inr name_map' \<Rightarrow> register_all name_map' es)"

text \<open>
  \<open>get_expert_id_map\<close>, on the rows \<open>experts\<close> fetched by \<open>SELECT id, name FROM experts\<close>.
\<close>

definition get_expert_id_map :: "(int \<times> string) list \<Rightarrow> py_error + expert_map" where
  "get_expert_id_map experts = register_all Map.empty experts"

subsection \<open>Sheet cells\<close>

text \<open>
  A cell of a pandas row: the missing value (\<open>NaN\<close>, and the \<open>None\<close> that \<open>row.get\<close> returns
  for a label the row does not have: \<open>pd.isna\<close> is true of both and the script looks at
  nothing else of them), a string, an integer number or a boolean. Numbers with a fractional
  part are not modelled.
\<close>

datatype cell = Missing | Text string | Num int | Flag bool

definition isna :: "cell \<Rightarrow> bool" where
  "isna c = (c = Missing)"

definition notna :: "cell \<Rightarrow> bool" where
  "notna c = (c \<noteq> Missing)"

text \<open>
  Python truthiness, \<open>bool(c)\<close>. The script tests \<open>pd.isna\<close> or \<open>pd.notna\<close> before it
  applies \<open>bool\<close>, \<open>str\<close> or \<open>int\<close> to a cell, so what these give for \<open>Missing\<close> is never
  looked at.
\<close>

fun py_bool :: "cell \<Rightarrow> bool" where
  "py_bool Missing = True"
| "py_bool (Text s) = (s \<noteq> [])"
| "py_bool (Num n) = (n \<noteq> 0)"
| "py_bool (Flag b) = b"

text \<open>Decimal digits of a natural number, and \<open>str\<close> of an integer.\<close>

definition digit_char :: "nat \<Rightarrow> char" where
  "digit_char d = ''0123456789'' ! d"

fun str_nat :: "nat \<Rightarrow> string" where
  "str_nat n = (if n < 10 then [digit_char n] else str_nat (n div 10) @ [digit_char (n mod 10)])"

declare str_nat.simps [simp del]

definition str_int :: "int \<Rightarrow> string" where
  "str_int i = (if i < 0 then CHR ''-'' # str_nat (nat (- i)) else str_nat (nat i))"

fun py_str :: "cell \<Rightarrow> string" where
  "py_str Missing = ''nan''"
| "py_str (Text s) = s"
| "py_str (Num n) = str_int n"
| "py_str (Flag b) = (if b then ''True'' else ''False'')"

subsection \<open>Resolving a name\<close>

text \<open>The static alias table of \<open>resolve_expert_name\<close>.\<close>

definition aliases :: "(string \<times> string) list" where
  "aliases =
    [(''rob'', ''robert alward''),
     (''jerry'', ''jerry song''),
     (''alex'', ''alex ishin''),
     (''phil'', ''philip garbarini''),
     (''zach'', ''zach barry''),
     (''ryan'', ''ryan diebner''),
     (''jackson'', ''jackson ozello''),
     (''arielle'', ''arielle flynn''),
     (''josh'', ''josh miller''),
     (''sneh'', ''sneh kumar''),
     (''kavi'', ''kavi munjal''),
     (''lindsay'', ''lindsay saldebar''),
     (''frank'', ''frank mork''),
     (''prem'', ''prem patel''),
     (''tyler'', ''tyler patterson''),
     (''haylee'', ''haylee glenn''),
     (''jack'', ''jack barnett''),
     (''minesh'', ''minesh patel''),
     (''jason'', ''jason dotzel''),
     (''wyatt'', ''wyatt morgan''),
     (''will'', ''will chen''),
     (''justin'', ''justin hwang'')]"

text \<open>
  \<open>resolve_expert_name\<close>. The result \<open>Inr None\<close> is Python's \<open>return None\<close>;
  \<open>name_str.split()[0]\<close> raises \<open>IndexError\<close> when \<open>name_str\<close> has no token.
\<close>

definition resolve_expert_name :: "cell \<Rightarrow> expert_map \<Rightarrow> py_error + int option" where
  "resolve_expert_name name expert_map =
     (if isna name \<or> \<not> py_bool name then Inr None
      else
        let name_str = py_lower (py_strip (py_str name)) in
        if expert_map name_str \<noteq> None then Inr (expert_map name_str)
        else
          case item0 (py_split name_str) of
            Inl err \<Rightarrow> Inl err
          | Inr first_name \<Rightarrow>
              if expert_map first_name \<noteq> None then Inr (expert_map first_name)
              else
                case map_of aliases name_str of
                  Some full_name \<Rightarrow>
                    if expert_map full_name \<noteq> None then Inr (expert_map full_name)
                    else Inr None
                | None \<Rightarrow> Inr None)"

subsection \<open>Coercions\<close>

text \<open>
  \<open>repr\<close> of an ASCII string, as it appears in the messages of \<open>KeyError\<close> and of the
  \<open>ValueError\<close> of \<open>int\<close>: single quotes unless the string has a single quote and no double
  quote; the quote in use and the backslash are escaped, tab, newline and carriage return
  are written \<open>\t\<close>, \<open>\n\<close>, \<open>\r\<close>, and the other control characters \<open>\xNN\<close>.
\<close>

definition hex_char :: "nat \<Rightarrow> char" where
  "hex_char d = ''0123456789abcdef'' ! d"

definition repr_char :: "char \<Rightarrow> char \<Rightarrow> string" where
  "repr_char q c =
     (let n = (of_char c :: nat) in
      if c = q \<or> c = CHR 0x5C then [CHR 0x5C, c]
      else if c = CHR 0x09 then [CHR 0x5C, CHR ''t'']
      else if c = CHR 0x0A then [CHR 0x5C, CHR ''n'']
      else if c = CHR 0x0D then [CHR 0x5C, CHR ''r'']
      else if n < 32 \<or> n = 127 then [CHR 0x5C, CHR ''x'', hex_char (n div 16), hex_char (n mod 16)]
      else [c])"

definition py_repr :: "string \<Rightarrow> string" where
  "py_repr s =
     (let q = (if CHR 0x27 \<in> set s \<and> CHR 0x22 \<notin> set s then CHR 0x22 else CHR 0x27)
      in q # concat (map (repr_char q) s) @ [q])"

text \<open>
  \<open>int(s)\<close> of a string, base 10: surrounding whitespace is dropped, then an optional sign
  and decimal digits, where single underscores may stand between digits.
\<close>

definition digit_val :: "char \<Rightarrow> nat option" where
  "digit_val c = map_of (zip ''0123456789'' [0, 1, 2, 3, 4, 5, 6, 7, 8, 9]) c"

fun digits_value :: "nat \<Rightarrow> string \<Rightarrow> nat option" where
  "digits_value acc [] = Some acc"
| "digits_value acc [c] =
     (case digit_val c of None \<Rightarrow> None | Some v \<Rightarrow> Some (10 * acc + v))"
| "digits_value acc (c # d # ds) =
     (if c = CHR ''_'' then
        (case digit_val d of None \<Rightarrow> None | Some v \<Rightarrow> digits_value (10 * acc + v) ds)
      else
        (case digit_val c of None \<Rightarrow> None | Some v \<Rightarrow> digits_value (10 * acc + v) (d # ds)))"

definition unsigned_literal :: "string \<Rightarrow> nat option" where
  "unsigned_literal s =
     (case s of
        [] \<Rightarrow> None
      | c # cs \<Rightarrow> (case digit_val c of None \<Rightarrow> None | Some v \<Rightarrow> digits_value v cs))"

definition int_literal :: "string \<Rightarrow> int option" where
  "int_literal s =
     (case s of
        [] \<Rightarrow> None
      | c # cs \<Rightarrow>
          if c = CHR ''-'' then map_option (\<lambda>n. - int n) (unsigned_literal cs)
          else if c = CHR ''+'' then map_option int (unsigned_literal cs)
          else map_option int (unsigned_literal (c # cs)))"

text \<open>\<open>int(c)\<close> of a cell.\<close>

fun py_int :: "cell \<Rightarrow> py_error + int" where
  "py_int Missing = Inl (ValueError ''cannot convert float NaN to integer'')"
| "py_int (Text s) =
     (case int_literal (py_strip s) of
        None \<Rightarrow> Inl (ValueError (''invalid literal for int() with base 10: '' @ py_repr s))
      | Some n \<Rightarrow> Inr n)"
| "py_int (Num n) = Inr n"
| "py_int (Flag b) = Inr (if b then 1 else 0)"

text \<open>\<open>str(e)\<close> of an exception.\<close>

fun error_message :: "py_error \<Rightarrow> string" where
  "error_message IndexError = ''list index out of range''"
| "error_message (KeyError k) = py_repr k"
| "error_message (ValueError m) = m"
| "error_message (DatabaseError m) = m"

subsection \<open>Sheet rows\<close>

text \<open>
  A row of the data frame maps column labels to cells. \<open>row[k]\<close> raises \<open>KeyError\<close> for a
  label the sheet does not have; \<open>row.get(k)\<close> returns \<open>None\<close> there, which is \<open>Missing\<close>.
\<close>

type_synonym row = "string \<rightharpoonup> cell"

definition row_item :: "row \<Rightarrow> string \<Rightarrow> py_error + cell" where
  "row_item row k = (case row k of None \<Rightarrow> Inl (KeyError k) | Some c \<Rightarrow> Inr c)"

definition row_get :: "row \<Rightarrow> string \<Rightarrow> cell" where
  "row_get row k = (case row k of None \<Rightarrow> Missing | Some c \<Rightarrow> c)"

text \<open>Sequencing of computations that can raise: the first exception ends the computation.\<close>

definition bind_err :: "'e + 'a \<Rightarrow> ('a \<Rightarrow> 'e + 'b) \<Rightarrow> 'e + 'b" where
  "bind_err m f = (case m of Inl e \<Rightarrow> Inl e | Inr v \<Rightarrow> f v)"

text \<open>
  The three shapes of parameter expression of the script:
  \<open>int(row[k]) if pd.notna(row.get(k)) else None\<close>,
  \<open>str(row[k]) if pd.notna(row.get(k)) else None\<close> and
  \<open>bool(row[k]) if pd.notna(row.get(k)) else False\<close>.
\<close>

definition int_or_none :: "row \<Rightarrow> string \<Rightarrow> py_error + int option" where
  "int_or_none row k =
     (if notna (row_get row k)
      then bind_err (row_item row k) (\<lambda>c. bind_err (py_int c) (\<lambda>n. Inr (Some n)))
      else Inr None)"

definition str_or_none :: "row \<Rightarrow> string \<Rightarrow> py_error + string option" where
  "str_or_none row k =
     (if notna (row_get row k)
      then bind_err (row_item row k) (\<lambda>c. Inr (Some (py_str c)))
      else Inr None)"

definition bool_or_false :: "row \<Rightarrow> string \<Rightarrow> py_error + bool" where
  "bool_or_false row k =
     (if notna (row_get row k)
      then bind_err (row_item row k) (\<lambda>c. Inr (py_bool c))
      else Inr False)"

text \<open>
  \<open>problem_id = str(row['ID']) if pd.notna(row['ID']) else None\<close>: here the label is read
  with \<open>row['ID']\<close> in the condition too.
\<close>

definition problem_id_of :: "row \<Rightarrow> py_error + string option" where
  "problem_id_of row =
     bind_err (row_item row ''ID'') (\<lambda>c.
       if notna c then bind_err (row_item row ''ID'') (\<lambda>c'. Inr (Some (py_str c')))
       else Inr None)"

subsection \<open>The upsert statements\<close>

datatype environment = PE | IB

text \<open>
  Both statements take \<open>problem_id\<close> first and then the eighteen parameters of
  \<open>problem_values\<close>, in the order of the columns they fill; the PE statement has one
  more, \<open>explainer_video\<close>.
\<close>

record problem_values =
  spec_number :: "int option"
  status :: "string option"
  sme_id :: "int option"
  reviewer_id :: "int option"
  final_reviewer_id :: "int option"
  engineer_id :: "int option"
  week :: "int option"
  separate_environment_init :: bool
  problem_doc :: "string option"
  ground_truth :: "string option"
  spec_folder :: "string option"
  spec_doc :: "string option"
  spec_data_folder :: "string option"
  docker_container :: "string option"
  pr_link :: "string option"
  blocker_reason :: "string option"
  sonnet_pass_rate :: "string option"
  opus_pass_rate :: "string option"

datatype statement =
    UpsertPE string problem_values "string option"
  | UpsertIB string problem_values

subsection \<open>The body of the loop, up to the call of \<open>cursor.execute\<close>\<close>

text \<open>
  The statements of the \<open>try\<close> block before \<open>cursor.execute\<close> runs, in Python's order
  of evaluation: \<open>problem_id\<close>, the five calls of \<open>resolve_expert_name\<close> (that of
  \<open>Reviewer 2\<close> third, its result \<open>reviewer2\<close> unused), then the parameter tuple from left
  to right. \<open>Inr None\<close> is the \<open>continue\<close> of a row without identifier; \<open>Inl e\<close> is an
  exception on its way to the \<open>except\<close> clause.
\<close>

definition pe_statement :: "row \<Rightarrow> expert_map \<Rightarrow> py_error + statement option" where
  "pe_statement row expert_map =
     bind_err (problem_id_of row) (\<lambda>problem_id.
     case problem_id of None \<Rightarrow> Inr None | Some pid \<Rightarrow>
     if pid = [] then Inr None else
     bind_err (resolve_expert_name (row_get row ''SME'') expert_map) (\<lambda>sme.
     bind_err (resolve_expert_name (row_get row ''Reviewer 1'') expert_map) (\<lambda>reviewer.
     bind_err (resolve_expert_name (row_get row ''Reviewer 2'') expert_map) (\<lambda>reviewer2.
     bind_err (resolve_expert_name (row_get row ''Engineer / Submitter'') expert_map) (\<lambda>engineer.
     bind_err (resolve_expert_name (row_get row ''Final Reviewer'') expert_map) (\<lambda>final_reviewer.
     bind_err (int_or_none row ''Spec #'') (\<lambda>spec.
     bind_err (str_or_none row ''Status'') (\<lambda>stat.
     bind_err (int_or_none row ''Week'') (\<lambda>wk.
     bind_err (bool_or_false row ''Separate Environment Init'') (\<lambda>sep.
     bind_err (str_or_none row ''Problem Doc'') (\<lambda>pdoc.
     bind_err (str_or_none row ''Problem Ground Truth'') (\<lambda>gt.
     bind_err (str_or_none row ''Spec Folder'') (\<lambda>sfolder.
     bind_err (str_or_none row ''Spec Doc'') (\<lambda>sdoc.
     bind_err (str_or_none row ''Spec Data Folder'') (\<lambda>sdata.
     bind_err (str_or_none row ''Docker Container'') (\<lambda>docker.
     bind_err (str_or_none row ''PR Link'') (\<lambda>pr.
     bind_err (str_or_none row ''Blocker Reason'') (\<lambda>blocker.
     bind_err (str_or_none row ''Sonnet 4.5  Pass @ 10'') (\<lambda>sonnet.
     bind_err (str_or_none row ''Opus 4.1 Pass @ 10'') (\<lambda>opus.
     bind_err (str_or_none row ''Explainer Video'') (\<lambda>video.
     Inr (Some (UpsertPE pid
       \<lparr>spec_number = spec, status = stat,
         sme_id = sme, reviewer_id = reviewer, final_reviewer_id = final_reviewer,
         engineer_id = engineer, week = wk, separate_environment_init = sep,
         problem_doc = pdoc, ground_truth = gt, spec_folder = sfolder, spec_doc = sdoc,
         spec_data_folder = sdata, docker_container = docker, pr_link = pr,
         blocker_reason = blocker, sonnet_pass_rate = sonnet, opus_pass_rate = opus\<rparr> video)))))))))))))))))))))))"

definition ib_statement :: "row \<Rightarrow> expert_map \<Rightarrow> py_error + statement option" where
  "ib_statement row expert_map =
     bind_err (problem_id_of row) (\<lambda>problem_id.
     case problem_id of None \<Rightarrow> Inr None | Some pid \<Rightarrow>
     if pid = [] then Inr None else
     bind_err (resolve_expert_name (row_get row ''SME'') expert_map) (\<lambda>sme.
     bind_err (resolve_expert_name (row_get row ''Reviewer 1'') expert_map) (\<lambda>reviewer.
     bind_err (resolve_expert_name (row_get row ''Reviewer 2'') expert_map) (\<lambda>reviewer2.
     bind_err (resolve_expert_name (row_get row ''Engineer / Submitter'') expert_map) (\<lambda>engineer.
     bind_err (resolve_expert_name (row_get row ''Final Reviewer'') expert_map) (\<lambda>final_reviewer.
     bind_err (int_or_none row ''Spec'') (\<lambda>spec.
     bind_err (str_or_none row ''Status'') (\<lambda>stat.
     bind_err (int_or_none row ''Week'') (\<lambda>wk.
     bind_err (bool_or_false row ''Separate Environment Init'') (\<lambda>sep.
     bind_err (str_or_none row ''Problem Doc'') (\<lambda>pdoc.
     bind_err (str_or_none row ''Ground Truth'') (\<lambda>gt.
     bind_err (str_or_none row ''Spec Folder'') (\<lambda>sfolder.
     bind_err (str_or_none row ''Spec Doc'') (\<lambda>sdoc.
     bind_err (str_or_none row ''Spec Data Folder'') (\<lambda>sdata.
     bind_err (str_or_none row ''Docker Container'') (\<lambda>docker.
     bind_err (str_or_none row ''PR Link'') (\<lambda>pr.
     bind_err (str_or_none row ''Blocker Reason'') (\<lambda>blocker.
     bind_err (str_or_none row ''Sonnet 4.5  Pass @ 10'') (\<lambda>sonnet.
     bind_err (str_or_none row ''Opus 4.1 Pass @ 10'') (\<lambda>opus.
     Inr (Some (UpsertIB pid
       \<lparr>spec_number = spec, status = stat,
         sme_id = sme, reviewer_id = reviewer, final_reviewer_id = final_reviewer,
         engineer_id = engineer, week = wk, separate_environment_init = sep,
         problem_doc = pdoc, ground_truth = gt, spec_folder = sfolder, spec_doc = sdoc,
         spec_data_folder = sdata, docker_container = docker, pr_link = pr,
         blocker_reason = blocker, sonnet_pass_rate = sonnet, opus_pass_rate = opus\<rparr>))))))))))))))))))))))"

subsection \<open>The two importers\<close>

text \<open>
  The local variables of an importer, and the connection. \<open>cursor.execute\<close> is a parameter
  of the loop: a function from the connection's state and a statement to the exception
  raised, if any, and the connection's new state.
\<close>

record 'c import_state =
  conn :: 'c
  imported :: nat
  skipped :: nat
  errors :: "string list"

datatype outcome = Continue | Executed | Raised py_error

definition try_row ::
  "(row \<Rightarrow> expert_map \<Rightarrow> py_error + statement option) \<Rightarrow>
   ('c \<Rightarrow> statement \<Rightarrow> py_error option \<times> 'c) \<Rightarrow> expert_map \<Rightarrow> 'c \<Rightarrow> row \<Rightarrow> outcome \<times> 'c" where
  "try_row prepare execute expert_map c row =
     (case prepare row expert_map of
        Inl e \<Rightarrow> (Raised e, c)
      | Inr None \<Rightarrow> (Continue, c)
      | Inr (Some stmt) \<Rightarrow>
          (case execute c stmt of
             (Some e, c') \<Rightarrow> (Raised e, c')
           | (None, c') \<Rightarrow> (Executed, c')))"

text \<open>The entry of the error list: \<open>f"Row {idx}: {str(e)}"\<close>.\<close>

definition row_error :: "nat \<Rightarrow> py_error \<Rightarrow> string" where
  "row_error idx e = ''Row '' @ str_nat idx @ '': '' @ error_message e"

text \<open>One turn of the \<open>for\<close> loop, with its \<open>try\<close> and \<open>except\<close>.\<close>

definition import_row ::
  "(row \<Rightarrow> expert_map \<Rightarrow> py_error + statement option) \<Rightarrow>
   ('c \<Rightarrow> statement \<Rightarrow> py_error option \<times> 'c) \<Rightarrow> expert_map \<Rightarrow>
   'c import_state \<Rightarrow> nat \<times> row \<Rightarrow> 'c import_state" where
  "import_row prepare execute expert_map s ir =
     (case try_row prepare execute expert_map (conn s) (snd ir) of
        (Continue, c) \<Rightarrow> s\<lparr>conn := c, skipped := skipped s + 1\<rparr>
      | (Executed, c) \<Rightarrow> s\<lparr>conn := c, imported := imported s + 1\<rparr>
      | (Raised e, c) \<Rightarrow>
          s\<lparr>conn := c, errors := errors s @ [row_error (fst ir) e], skipped := skipped s + 1\<rparr>)"

fun import_loop ::
  "(row \<Rightarrow> expert_map \<Rightarrow> py_error + statement option) \<Rightarrow>
   ('c \<Rightarrow> statement \<Rightarrow> py_error option \<times> 'c) \<Rightarrow> expert_map \<Rightarrow>
   'c import_state \<Rightarrow> (nat \<times> row) list \<Rightarrow> 'c import_state" where
  "import_loop prepare execute expert_map s [] = s"
| "import_loop prepare execute expert_map s (ir # irs) =
     import_loop prepare execute expert_map (import_row prepare execute expert_map s ir) irs"

text \<open>
  \<open>import_pe_problems\<close> and \<open>import_ib_problems\<close>, on the rows \<open>df\<close> that \<open>pd.read_excel\<close>
  returned; \<open>df.iterrows()\<close> numbers them from 0. The result is the state at the
  \<open>return\<close>: the script returns \<open>imported\<close> and prints \<open>skipped\<close> and the first five
  \<open>errors\<close>.
\<close>

definition import_pe_problems ::
  "('c \<Rightarrow> statement \<Rightarrow> py_error option \<times> 'c) \<Rightarrow> 'c \<Rightarrow> expert_map \<Rightarrow> row list \<Rightarrow> 'c import_state" where
  "import_pe_problems execute c expert_map df =
     import_loop pe_statement execute expert_map
       \<lparr>conn = c, imported = 0, skipped = 0, errors = []\<rparr> (enumerate 0 df)"

definition import_ib_problems ::
  "('c \<Rightarrow> statement \<Rightarrow> py_error option \<times> 'c) \<Rightarrow> 'c \<Rightarrow> expert_map \<Rightarrow> row list \<Rightarrow> 'c import_state" where
  "import_ib_problems execute c expert_map df =
     import_loop ib_statement execute expert_map
       \<lparr>conn = c, imported = 0, skipped = 0, errors = []\<rparr> (enumerate 0 df)"

subsection \<open>The table \<open>problems\<close> and the upsert\<close>

text \<open>
  The columns of \<open>problems\<close> that the two statements name. The table has one row for a
  pair of \<open>problem_id\<close> and \<open>environment\<close> (the conflict target of the statements), so it is
  a map from that pair to the other columns of the row. The eighteen columns that both
  statements fill from \<open>problem_values\<close> are kept together in \<open>cols\<close>.
\<close>

record problem =
  cols :: problem_values
  explainer_video :: "string option"
  source :: string
  created_at :: nat
  updated_at :: "nat option"

type_synonym problems = "string \<times> environment \<rightharpoonup> problem"

text \<open>
  \<open>INSERT ... ON CONFLICT (problem_id, environment) DO UPDATE SET ...\<close> as PostgreSQL
  runs it. \<open>now\<close> is the value of \<open>NOW()\<close>. The columns an \<open>INSERT\<close> does not list take the
  defaults of the table, whose definition is not in the script: \<open>defaults now\<close> is the row
  of defaults. The \<open>UPDATE\<close> branch leaves the columns it does not set as they are:
  \<open>created_at\<close>, and for IB \<open>explainer_video\<close>.
\<close>

definition upsert ::
  "(nat \<Rightarrow> problem) \<Rightarrow> nat \<Rightarrow> problems \<Rightarrow> statement \<Rightarrow> problems" where
  "upsert defaults now db stmt =
     (case stmt of
        UpsertPE pid v video \<Rightarrow>
          (case db (pid, PE) of
             None \<Rightarrow>
               db((pid, PE) \<mapsto>
                 (defaults now)\<lparr>cols := v, explainer_video := video,
                   source := ''legacy_sheets'', created_at := now\<rparr>)
           | Some r \<Rightarrow>
               db((pid, PE) \<mapsto>
                 r\<lparr>cols := v, explainer_video := video,
                   source := ''legacy_sheets'', updated_at := Some now\<rparr>))
      | UpsertIB pid v \<Rightarrow>
          (case db (pid, IB) of
             None \<Rightarrow>
               db((pid, IB) \<mapsto>
                 (defaults now)\<lparr>cols := v, source := ''legacy_sheets'', created_at := now\<rparr>)
           | Some r \<Rightarrow>
               db((pid, IB) \<mapsto>
                 r\<lparr>cols := v, source := ''legacy_sheets'', updated_at := Some now\<rparr>)))"

text \<open>\<open>cursor.execute\<close> on a table that accepts the row: no exception.\<close>

definition pg_execute ::
  "(nat \<Rightarrow> problem) \<Rightarrow> nat \<Rightarrow> problems \<Rightarrow> statement \<Rightarrow> py_error option \<times> problems" where
  "pg_execute defaults now db stmt = (None, upsert defaults now db stmt)"

subsection \<open>Notions used to state the properties\<close>

text \<open>
  The identifier of the earliest expert of a roster whose lowercased name has the first
  token \<open>k\<close>, and the identifier of the last expert whose lowercased full name is \<open>k\<close>.
\<close>

fun first_with_token :: "string \<Rightarrow> (int \<times> string) list \<Rightarrow> int option" where
  "first_with_token k [] = None"
| "first_with_token k (e # es) =
     (if item0 (py_split (py_lower (snd e))) = Inr k then Some (fst e)
      else first_with_token k es)"

fun last_with_name :: "string \<Rightarrow> (int \<times> string) list \<Rightarrow> int option" where
  "last_with_name k [] = None"
| "last_with_name k (e # es) =
     (case last_with_name k es of
        Some i \<Rightarrow> Some i
      | None \<Rightarrow> if py_lower (snd e) = k then Some (fst e) else None)"

text \<open>The statements that an importer sends for the rows of a sheet, in order.\<close>

fun statements_of ::
  "(row \<Rightarrow> expert_map \<Rightarrow> py_error + statement option) \<Rightarrow> expert_map \<Rightarrow> row list \<Rightarrow> statement list" where
  "statements_of prepare expert_map [] = []"
| "statements_of prepare expert_map (row # rows) =
     (case prepare row expert_map of
        Inr (Some stmt) \<Rightarrow> stmt # statements_of prepare expert_map rows
      | _ \<Rightarrow> statements_of prepare expert_map rows)"

text \<open>The key of the table that a statement writes.\<close>

fun key_of :: "statement \<Rightarrow> string \<times> environment" where
  "key_of (UpsertPE pid v video) = (pid, PE)"
| "key_of (UpsertIB pid v) = (pid, IB)"

text \<open>A row of the table, and a table, with the update timestamp left out.\<close>

definition without_updated_at :: "problem \<Rightarrow> problem" where
  "without_updated_at r = r\<lparr>updated_at := None\<rparr>"

definition table_without_updated_at :: "problems \<Rightarrow> problems" where
  "table_without_updated_at db = (\<lambda>k. map_option without_updated_at (db k))"

text \<open>
  What a statement writes into a row, whichever branch runs; the row that its \<open>UPDATE\<close>
  branch would start from; and the last statement of a list that writes a given key.
\<close>

definition written :: "statement \<Rightarrow> problem \<Rightarrow> problem" where
  "written stmt r =
     (case stmt of
        UpsertPE pid v video \<Rightarrow>
          r\<lparr>cols := v, explainer_video := video, source := ''legacy_sheets''\<rparr>
      | UpsertIB pid v \<Rightarrow> r\<lparr>cols := v, source := ''legacy_sheets''\<rparr>)"

definition row_before :: "(nat \<Rightarrow> problem) \<Rightarrow> nat \<Rightarrow> problem option \<Rightarrow> problem" where
  "row_before defaults now ro =
     (case ro of None \<Rightarrow> (defaults now)\<lparr>created_at := now\<rparr> | Some r \<Rightarrow> r)"

fun last_statement :: "string \<times> environment \<Rightarrow> statement list \<Rightarrow> statement option" where
  "last_statement k [] = None"
| "last_statement k (stmt # stmts) =
     (case last_statement k stmts of
        Some x \<Rightarrow> Some x
      | None \<Rightarrow> if key_of stmt = k then Some stmt else None)"

text \<open>A row of column defaults and a sheet row, for the examples.\<close>

definition no_values :: problem_values where
  "no_values =
     \<lparr>spec_number = None, status = None, sme_id = None, reviewer_id = None,
       final_reviewer_id = None, engineer_id = None, week = None,
       separate_environment_init = False, problem_doc = None, ground_truth = None,
       spec_folder = None, spec_doc = None, spec_data_folder = None, docker_container = None,
       pr_link = None, blocker_reason = None, sonnet_pass_rate = None, opus_pass_rate = None\<rparr>"

definition null_defaults :: "nat \<Rightarrow> problem" where
  "null_defaults now =
     \<lparr>cols = no_values, explainer_video = None, source = [], created_at = now,
       updated_at = None\<rparr>"

definition p100_row :: row where
  "p100_row =
     [''ID'' \<mapsto> Text ''P-100'', ''SME'' \<mapsto> Text ''rob'', ''Spec #'' \<mapsto> Num 5,
      ''Status'' \<mapsto> Text ''Done'']"

section \<open>Properties\<close>

lemmas string_eval = py_lower_def lower_char_def py_strip_def py_split_def is_space_def item0_def

lemmas row_eval = row_item_def row_get_def notna_def isna_def bind_err_def int_or_none_def
  str_or_none_def bool_or_false_def problem_id_of_def resolve_expert_name_def aliases_def

lemmas loop_eval = import_pe_problems_def import_ib_problems_def import_row_def try_row_def
  pg_execute_def upsert_def row_error_def enumerate_eq_zip

subsection \<open>The lookup table\<close>

lemma register_expert_lookup:
  assumes "register_expert m0 e = Inr m1"
  shows "m1 k =
     (if py_lower (snd e) = k then Some (fst e)
      else case m0 k of
             Some j \<Rightarrow> Some j
           | None \<Rightarrow> if item0 (py_split (py_lower (snd e))) = Inr k then Some (fst e) else None)"
  using assms
  by (auto simp: register_expert_def Let_def split: sum.splits if_splits option.splits)

lemma register_all_lookup:
  "register_all m0 es = Inr m \<Longrightarrow>
   m k = (case last_with_name k es of
            Some i \<Rightarrow> Some i
          | None \<Rightarrow> (case m0 k of Some j \<Rightarrow> Some j | None \<Rightarrow> first_with_token k es))"
proof (induction es arbitrary: m0)
  case Nil
  then show ?case by (simp split: option.splits)
next
  case (Cons e es)
  from Cons.prems obtain m1 where r: "register_expert m0 e = Inr m1"
    and rest: "register_all m1 es = Inr m"
    by (auto split: sum.splits)
  have "m k = (case last_with_name k es of
            Some i \<Rightarrow> Some i
          | None \<Rightarrow> (case m1 k of Some j \<Rightarrow> Some j | None \<Rightarrow> first_with_token k es))"
    by (rule Cons.IH [OF rest])
  then show ?case
    by (simp add: register_expert_lookup [OF r] split: option.splits)
qed

lemma register_all_returns:
  "\<forall>e \<in> set es. py_split (py_lower (snd e)) \<noteq> [] \<Longrightarrow> \<exists>m. register_all m0 es = Inr m"
proof (induction es arbitrary: m0)
  case Nil
  then show ?case by simp
next
  case (Cons e es)
  then obtain t ts where "py_split (py_lower (snd e)) = t # ts"
    by (cases "py_split (py_lower (snd e))") auto
  then have "\<exists>m1. register_expert m0 e = Inr m1"
    by (simp add: register_expert_def item0_def Let_def)
  then obtain m1 where "register_expert m0 e = Inr m1" ..
  with Cons show ?case by simp
qed

lemma table_lookup:
  assumes "get_expert_id_map experts = Inr name_map"
  shows "name_map k =
     (case last_with_name k experts of
        Some i \<Rightarrow> Some i
      | None \<Rightarrow> first_with_token k experts)"
proof -
  have "register_all Map.empty experts = Inr name_map"
    using assms by (simp add: get_expert_id_map_def)
  from register_all_lookup [OF this, of k] show ?thesis
    by (simp split: option.splits)
qed

lemma first_with_token_member:
  "e \<in> set es \<Longrightarrow> item0 (py_split (py_lower (snd e))) = Inr k \<Longrightarrow> first_with_token k es \<noteq> None"
  by (induction es) auto

text \<open>
  C5, as the code has it. Whenever every name of the roster has a first token,
  \<open>get_expert_id_map\<close> returns a table (otherwise \<open>split()[0]\<close> raises \<open>IndexError\<close>), and
  the table maps a key \<open>k\<close> as follows: if \<open>k\<close> is the lowercased full name of some expert,
  to the identifier of the last such expert, since full names are stored unconditionally
  and overwrite what is there; otherwise to the identifier of the earliest expert whose
  first token is \<open>k\<close>, since a first token is stored only where the key is free; and to
  nothing when there is no such expert either.
\<close>

theorem get_expert_id_map_table:
  assumes "\<forall>e \<in> set experts. py_split (py_lower (snd e)) \<noteq> []"
  shows "\<exists>name_map. get_expert_id_map experts = Inr name_map \<and>
     (\<forall>k. name_map k =
        (case last_with_name k experts of
           Some i \<Rightarrow> Some i
         | None \<Rightarrow> first_with_token k experts))"
proof -
  from register_all_returns [OF assms, of Map.empty]
  obtain m where m: "get_expert_id_map experts = Inr m"
    by (auto simp: get_expert_id_map_def)
  from table_lookup [OF m] have "\<forall>k. m k =
        (case last_with_name k experts of
           Some i \<Rightarrow> Some i
         | None \<Rightarrow> first_with_token k experts)"
    by blast
  with m show ?thesis by blast
qed

theorem get_expert_id_map_table_witness:
  "\<exists>m. get_expert_id_map [(1, ''Jack Barnett''), (2, ''Jack Smith''), (3, ''jack barnett'')] = Inr m \<and>
       m ''jack'' = Some 1 \<and> m ''jack smith'' = Some 2 \<and> m ''jack barnett'' = Some 3 \<and>
       m ''smith'' = None"
proof -
  have "\<forall>e \<in> set [(1::int, ''Jack Barnett''), (2, ''Jack Smith''), (3, ''jack barnett'')].
          py_split (py_lower (snd e)) \<noteq> []"
    by (simp add: string_eval)
  from get_expert_id_map_table [OF this] show ?thesis
    by (auto simp: string_eval)
qed

text \<open>
  C5 as stated fails: with the roster \<open>[(1, "Jack Barnett"), (2, "Jack")]\<close> the earliest
  expert bearing the first token \<open>jack\<close> is expert 1, and the key \<open>jack\<close> maps to expert 2,
  whose full name overwrote the first-name entry.
\<close>

theorem first_token_key_overwritten:
  "\<exists>m. get_expert_id_map [(1, ''Jack Barnett''), (2, ''Jack'')] = Inr m \<and>
       first_with_token ''jack'' [(1, ''Jack Barnett''), (2, ''Jack'')] = Some 1 \<and>
       m ''jack'' = Some 2"
  by (simp add: get_expert_id_map_def register_expert_def string_eval)

subsection \<open>Resolving names\<close>

text \<open>
  C6, as the code has it. On a roster with both Jack Barnett and Jack Smith, \<open>jack\<close> is a
  key of the table, so the name \<open>jack\<close> is resolved by the direct match to the identifier
  stored under that key: that of the last expert whose whole name is \<open>jack\<close> if there is
  one, otherwise that of the earliest expert whose first token is \<open>jack\<close>. The alias table
  is not reached.
\<close>

theorem resolve_jack:
  assumes "get_expert_id_map experts = Inr expert_map"
    and "(b, ''Jack Barnett'') \<in> set experts"
    and "(s, ''Jack Smith'') \<in> set experts"
  shows "\<exists>i. resolve_expert_name (Text ''jack'') expert_map = Inr (Some i) \<and>
     expert_map ''jack'' = Some i \<and>
     Some i = (case last_with_name ''jack'' experts of
                 Some j \<Rightarrow> Some j
               | None \<Rightarrow> first_with_token ''jack'' experts)"
proof -
  have "item0 (py_split (py_lower (snd (b, ''Jack Barnett'')))) = Inr ''jack''"
    by (simp add: string_eval)
  with assms(2) have "first_with_token ''jack'' experts \<noteq> None"
    by (rule first_with_token_member)
  then have "(case last_with_name ''jack'' experts of
                 Some j \<Rightarrow> Some j
               | None \<Rightarrow> first_with_token ''jack'' experts) \<noteq> None"
    by (simp split: option.splits)
  then obtain i where i: "(case last_with_name ''jack'' experts of
                 Some j \<Rightarrow> Some j
               | None \<Rightarrow> first_with_token ''jack'' experts) = Some i"
    by blast
  with table_lookup [OF assms(1), of "''jack''"] have m: "expert_map ''jack'' = Some i"
    by simp
  have "py_lower (py_strip ''jack'') = ''jack''"
    by (simp add: string_eval)
  with m have "resolve_expert_name (Text ''jack'') expert_map = Inr (Some i)"
    by (simp add: resolve_expert_name_def isna_def)
  with m i show ?thesis by simp
qed

theorem resolve_jack_witness:
  "\<exists>m. get_expert_id_map [(1, ''Jack Barnett''), (2, ''Jack Smith'')] = Inr m \<and>
       resolve_expert_name (Text ''jack'') m = Inr (Some 1)"
proof -
  obtain m where m: "get_expert_id_map [(1, ''Jack Barnett''), (2, ''Jack Smith'')] = Inr m"
    by (simp add: get_expert_id_map_def register_expert_def string_eval)
  from resolve_jack [OF m, of 1 2] have "resolve_expert_name (Text ''jack'') m = Inr (Some 1)"
    by (auto simp: string_eval)
  with m show ?thesis by blast
qed

text \<open>
  C6 as stated fails: with Jack Smith (identifier 1) registered before Jack Barnett
  (identifier 2), the name \<open>jack\<close> resolves to 1, Jack Smith.
\<close>

theorem resolve_jack_smith_first:
  "\<exists>m. get_expert_id_map [(1, ''Jack Smith''), (2, ''Jack Barnett'')] = Inr m \<and>
       m ''jack barnett'' = Some 2 \<and>
       resolve_expert_name (Text ''jack'') m = Inr (Some 1)"
  by (simp add: get_expert_id_map_def register_expert_def row_eval string_eval)

lemma is_space_lower_char: "is_space (lower_char c) = is_space c"
  by (simp add: lower_char_def is_space_def)

lemma split_from_Nil: "split_from cur s = [] \<longleftrightarrow> cur = [] \<and> list_all is_space s"
  by (induction s arbitrary: cur) auto

lemma py_split_Nil: "py_split s = [] \<longleftrightarrow> list_all is_space s"
  by (simp add: py_split_def split_from_Nil)

lemma py_strip_spaces: "list_all is_space s \<Longrightarrow> py_strip s = []"
  by (auto simp: py_strip_def list_all_iff dest: set_dropWhileD)

lemma py_strip_keeps_token:
  assumes "\<not> list_all is_space s"
  shows "\<not> list_all is_space (py_strip s)"
proof -
  let ?r = "dropWhile is_space s"
  from assms have ne: "?r \<noteq> []"
    by (simp add: list_all_iff dropWhile_eq_Nil_conv)
  then have "\<not> is_space (hd ?r)" by (rule hd_dropWhile)
  moreover from ne have "hd ?r \<in> set (rev ?r)" by simp
  ultimately have "dropWhile is_space (rev ?r) \<noteq> []"
    by (auto simp: dropWhile_eq_Nil_conv)
  then have "\<not> is_space (hd (dropWhile is_space (rev ?r)))" by (rule hd_dropWhile)
  moreover from \<open>dropWhile is_space (rev ?r) \<noteq> []\<close>
  have "hd (dropWhile is_space (rev ?r)) \<in> set (py_strip s)"
    by (simp add: py_strip_def)
  ultimately show ?thesis by (auto simp: list_all_iff)
qed

lemma name_str_has_token:
  "py_split (py_lower (py_strip s)) = [] \<longleftrightarrow> list_all is_space s"
proof
  assume "py_split (py_lower (py_strip s)) = []"
  then have "list_all is_space (py_strip s)"
    by (simp add: py_split_Nil py_lower_def list_all_iff is_space_lower_char)
  then show "list_all is_space s"
    using py_strip_keeps_token by blast
next
  assume "list_all is_space s"
  then show "py_split (py_lower (py_strip s)) = []"
    by (simp add: py_strip_spaces py_lower_def py_split_def)
qed

text \<open>
  \<open>resolve_expert_name\<close> raises in one case only: the value is a non-empty string (or
  another cell that is neither missing nor false) whose text is all whitespace, and the
  empty string is not a key of the table. The exception is \<open>IndexError\<close>.
\<close>

lemma resolve_expert_name_raises:
  "resolve_expert_name name expert_map = Inl e \<longleftrightarrow>
   e = IndexError \<and> notna name \<and> py_bool name \<and> list_all is_space (py_str name) \<and>
   expert_map [] = None"
proof (cases "isna name \<or> \<not> py_bool name")
  case True
  then show ?thesis by (auto simp: resolve_expert_name_def isna_def notna_def)
next
  case False
  show ?thesis
  proof (cases "list_all is_space (py_str name)")
    case True
    then have "py_lower (py_strip (py_str name)) = []"
      by (simp add: py_strip_spaces py_lower_def)
    with False True show ?thesis
      by (auto simp: resolve_expert_name_def isna_def notna_def py_split_def item0_def)
  next
    case nt: False
    then have "py_split (py_lower (py_strip (py_str name))) \<noteq> []"
      by (simp add: name_str_has_token)
    then obtain t ts where "py_split (py_lower (py_strip (py_str name))) = t # ts"
      by (cases "py_split (py_lower (py_strip (py_str name)))") auto
    with False nt show ?thesis
      by (auto simp: resolve_expert_name_def Let_def item0_def split: option.splits)
  qed
qed

text \<open>
  On every other value the function returns, in this order: no identifier for a value that
  is missing or false in Python's sense (the empty string, and also the number 0 and
  \<open>False\<close>); the entry of the trimmed, lowercased string; the entry of its first token;
  the entry of the full name that the alias table gives for the string; no identifier.
\<close>

lemma resolve_expert_name_order:
  assumes "\<not> list_all is_space (py_str name)"
  shows "resolve_expert_name name expert_map =
     Inr (if isna name \<or> \<not> py_bool name then None
          else let name_str = py_lower (py_strip (py_str name));
                   first_name = hd (py_split name_str)
               in if expert_map name_str \<noteq> None then expert_map name_str
                  else if expert_map first_name \<noteq> None then expert_map first_name
                  else case map_of aliases name_str of
                         Some full_name \<Rightarrow> expert_map full_name
                       | None \<Rightarrow> None)"
proof -
  from assms have "py_split (py_lower (py_strip (py_str name))) \<noteq> []"
    by (simp add: name_str_has_token)
  then obtain t ts where "py_split (py_lower (py_strip (py_str name))) = t # ts"
    by (cases "py_split (py_lower (py_strip (py_str name)))") auto
  then show ?thesis
    by (auto simp: resolve_expert_name_def Let_def item0_def split: option.splits)
qed

text \<open>
  C1 at a name of one space and the empty table: the name is neither absent nor empty, its
  trimmed form is no key, and \<open>resolve_expert_name\<close> raises \<open>IndexError\<close> where the claim
  has it go on to the alias table and return no identifier.
\<close>

theorem resolve_expert_name_whitespace:
  "resolve_expert_name (Text '' '') Map.empty = Inl IndexError"
  by (simp add: row_eval string_eval)

text \<open>
  C4 at a PE row whose \<open>SME\<close> cell is one space: \<open>resolve_expert_name\<close> raises, the row is
  counted as skipped, not as imported, and nothing is written.
\<close>

theorem whitespace_name_skips_row:
  "import_pe_problems (pg_execute null_defaults 0) Map.empty Map.empty
     [[''ID'' \<mapsto> Text ''P-1'', ''SME'' \<mapsto> Text '' '']] =
   \<lparr>conn = Map.empty, imported = 0, skipped = 1, errors = [''Row 0: list index out of range'']\<rparr>"
  by (simp add: loop_eval pe_statement_def row_eval string_eval str_nat.simps digit_char_def)

subsection \<open>The loop of an importer\<close>

lemma import_loop_append:
  "import_loop prepare execute m s (xs @ ys) =
   import_loop prepare execute m (import_loop prepare execute m s xs) ys"
  by (induction xs arbitrary: s) simp_all

lemma import_loop_split:
  "import_loop prepare execute m s (enumerate 0 (pre @ row # post)) =
   import_loop prepare execute m
     (import_row prepare execute m (import_loop prepare execute m s (enumerate 0 pre))
        (length pre, row))
     (enumerate (Suc (length pre)) post)"
  by (simp add: enumerate_append_eq import_loop_append)

lemma import_row_raised:
  "try_row prepare execute m (conn s) row = (Raised e, c) \<Longrightarrow>
   import_row prepare execute m s (idx, row) =
   s\<lparr>conn := c, errors := errors s @ [''Row '' @ str_nat idx @ '': '' @ error_message e],
     skipped := skipped s + 1\<rparr>"
  by (simp add: import_row_def row_error_def)

lemma blank_id_continue:
  assumes "row ''ID'' = Some Missing \<or> row ''ID'' = Some (Text [])"
  shows "pe_statement row m = Inr None" and "ib_statement row m = Inr None"
  using assms
  by (auto simp: pe_statement_def ib_statement_def problem_id_of_def row_item_def bind_err_def notna_def)

lemma import_row_continue:
  "prepare row m = Inr None \<Longrightarrow>
   import_row prepare execute m s (idx, row) = s\<lparr>skipped := skipped s + 1\<rparr>"
  by (simp add: import_row_def try_row_def)

lemmas int_eval = int_literal_def unsigned_literal_def digit_val_def py_repr_def repr_char_def Let_def

lemma bad_spec_pe:
  "try_row pe_statement (pg_execute null_defaults 0) Map.empty Map.empty
     [''ID'' \<mapsto> Text ''P-7'', ''Spec #'' \<mapsto> Text ''n/a''] =
   (Raised (ValueError (''invalid literal for int() with base 10: '' @ [CHR 0x27] @ ''n/a'' @ [CHR 0x27])), Map.empty)"
  by (simp add: try_row_def pe_statement_def row_eval string_eval int_eval)

lemma bad_spec_ib:
  "try_row ib_statement (pg_execute null_defaults 0) Map.empty Map.empty
     [''ID'' \<mapsto> Text ''P-7'', ''Spec'' \<mapsto> Text ''n/a''] =
   (Raised (ValueError (''invalid literal for int() with base 10: '' @ [CHR 0x27] @ ''n/a'' @ [CHR 0x27])), Map.empty)"
  by (simp add: try_row_def ib_statement_def row_eval string_eval int_eval)

text \<open>
  C3. In either importer, for any behaviour of \<open>cursor.execute\<close>: when the \<open>try\<close> block
  of a row raises \<open>e\<close>, whether before the statement is sent (a coercion or a name that
  raises) or in \<open>cursor.execute\<close>, the run over the whole sheet is the run over the rows
  before it, then the entry \<open>Row idx: message of e\<close> appended to the error list and the
  skipped count incremented (the imported count as it was), then the run over the rows
  after it.
\<close>

theorem failing_row_is_logged_and_skipped:
  "(let s = import_pe_problems execute c0 expert_map pre in
      try_row pe_statement execute expert_map (conn s) row = (Raised e, c) \<longrightarrow>
      import_pe_problems execute c0 expert_map (pre @ row # post) =
      import_loop pe_statement execute expert_map
        (s\<lparr>conn := c,
           errors := errors s @ [''Row '' @ str_nat (length pre) @ '': '' @ error_message e],
           skipped := skipped s + 1\<rparr>)
        (enumerate (Suc (length pre)) post))
   \<and>
   (let s = import_ib_problems execute c0 expert_map pre in
      try_row ib_statement execute expert_map (conn s) row = (Raised e, c) \<longrightarrow>
      import_ib_problems execute c0 expert_map (pre @ row # post) =
      import_loop ib_statement execute expert_map
        (s\<lparr>conn := c,
           errors := errors s @ [''Row '' @ str_nat (length pre) @ '': '' @ error_message e],
           skipped := skipped s + 1\<rparr>)
        (enumerate (Suc (length pre)) post))"
  by (simp add: import_pe_problems_def import_ib_problems_def import_loop_split
      import_row_raised Let_def)

theorem failing_row_is_logged_and_skipped_witness:
  "(let s = import_pe_problems (pg_execute null_defaults 0) Map.empty Map.empty
        [[''ID'' \<mapsto> Text ''P-7'', ''Spec #'' \<mapsto> Text ''n/a''], [''ID'' \<mapsto> Text ''P-8'']]
    in imported s = 1 \<and> skipped s = 1 \<and>
       errors s = [''Row 0: invalid literal for int() with base 10: '' @ [CHR 0x27] @ ''n/a'' @ [CHR 0x27]] \<and>
       conn s (''P-8'', PE) \<noteq> None \<and> conn s (''P-7'', PE) = None)
   \<and>
   (let s = import_ib_problems (pg_execute null_defaults 0) Map.empty Map.empty
        [[''ID'' \<mapsto> Text ''P-7'', ''Spec'' \<mapsto> Text ''n/a''], [''ID'' \<mapsto> Text ''P-8'']]
    in imported s = 1 \<and> skipped s = 1 \<and>
       errors s = [''Row 0: invalid literal for int() with base 10: '' @ [CHR 0x27] @ ''n/a'' @ [CHR 0x27]] \<and>
       conn s (''P-8'', IB) \<noteq> None \<and> conn s (''P-7'', IB) = None)"
proof -
  note inst = failing_row_is_logged_and_skipped [where execute = "pg_execute null_defaults 0"
      and ?c0.0 = Map.empty and expert_map = Map.empty and pre = "[]" and c = Map.empty
      and post = "[[''ID'' \<mapsto> Text ''P-8'']]"]
  have pe0: "conn (import_pe_problems (pg_execute null_defaults 0) Map.empty Map.empty []) = Map.empty"
    by (simp add: import_pe_problems_def)
  have ib0: "conn (import_ib_problems (pg_execute null_defaults 0) Map.empty Map.empty []) = Map.empty"
    by (simp add: import_ib_problems_def)
  have pe: "import_pe_problems (pg_execute null_defaults 0) Map.empty Map.empty
        ([] @ [''ID'' \<mapsto> Text ''P-7'', ''Spec #'' \<mapsto> Text ''n/a''] # [[''ID'' \<mapsto> Text ''P-8'']]) =
      import_loop pe_statement (pg_execute null_defaults 0) Map.empty
        \<lparr>conn = Map.empty, imported = 0, skipped = 1,
          errors = [''Row 0: invalid literal for int() with base 10: '' @ [CHR 0x27] @ ''n/a'' @ [CHR 0x27]]\<rparr>
        (enumerate 1 [[''ID'' \<mapsto> Text ''P-8'']])"
    using inst [THEN conjunct1] bad_spec_pe
    by (simp add: Let_def pe0) (simp add: import_pe_problems_def str_nat.simps digit_char_def)
  have ib: "import_ib_problems (pg_execute null_defaults 0) Map.empty Map.empty
        ([] @ [''ID'' \<mapsto> Text ''P-7'', ''Spec'' \<mapsto> Text ''n/a''] # [[''ID'' \<mapsto> Text ''P-8'']]) =
      import_loop ib_statement (pg_execute null_defaults 0) Map.empty
        \<lparr>conn = Map.empty, imported = 0, skipped = 1,
          errors = [''Row 0: invalid literal for int() with base 10: '' @ [CHR 0x27] @ ''n/a'' @ [CHR 0x27]]\<rparr>
        (enumerate 1 [[''ID'' \<mapsto> Text ''P-8'']])"
    using inst [THEN conjunct2] bad_spec_ib
    by (simp add: Let_def ib0) (simp add: import_ib_problems_def str_nat.simps digit_char_def)
  from pe ib show ?thesis
    by (simp add: import_row_def try_row_def pg_execute_def pe_statement_def ib_statement_def
        row_eval upsert_def Let_def)
qed

text \<open>
  C7. In either importer, for any behaviour of \<open>cursor.execute\<close>: a row whose \<open>ID\<close> cell
  is the missing value or the empty string changes nothing but the skipped count, which
  goes up by one. The connection is as before (\<open>cursor.execute\<close> is not called), the error
  list and the imported count are as before, and the loop goes on with the rows after it.
\<close>

theorem row_without_id_is_skipped:
  assumes "row ''ID'' = Some Missing \<or> row ''ID'' = Some (Text [])"
  shows "(let s = import_pe_problems execute c0 expert_map pre in
            import_pe_problems execute c0 expert_map (pre @ row # post) =
            import_loop pe_statement execute expert_map (s\<lparr>skipped := skipped s + 1\<rparr>)
              (enumerate (Suc (length pre)) post))
       \<and>
         (let s = import_ib_problems execute c0 expert_map pre in
            import_ib_problems execute c0 expert_map (pre @ row # post) =
            import_loop ib_statement execute expert_map (s\<lparr>skipped := skipped s + 1\<rparr>)
              (enumerate (Suc (length pre)) post))"
  using assms blank_id_continue [where row = row and m = expert_map]
  by (simp add: import_pe_problems_def import_ib_problems_def import_loop_split
      import_row_continue Let_def)

theorem row_without_id_is_skipped_witness:
  "import_pe_problems (pg_execute null_defaults 0) Map.empty Map.empty
     [[''ID'' \<mapsto> Missing, ''SME'' \<mapsto> Text ''rob'']] =
     \<lparr>conn = Map.empty, imported = 0, skipped = 1, errors = []\<rparr> \<and>
   import_ib_problems (pg_execute null_defaults 0) Map.empty Map.empty
     [[''ID'' \<mapsto> Text [], ''SME'' \<mapsto> Text ''rob'']] =
     \<lparr>conn = Map.empty, imported = 0, skipped = 1, errors = []\<rparr>"
proof -
  have a: "[''ID'' \<mapsto> Missing, ''SME'' \<mapsto> Text ''rob''] ''ID'' = Some Missing \<or>
           [''ID'' \<mapsto> Missing, ''SME'' \<mapsto> Text ''rob''] ''ID'' = Some (Text [])"
    by simp
  have b: "[''ID'' \<mapsto> Text [], ''SME'' \<mapsto> Text ''rob''] ''ID'' = Some Missing \<or>
           [''ID'' \<mapsto> Text [], ''SME'' \<mapsto> Text ''rob''] ''ID'' = Some (Text [])"
    by simp
  from a b
    row_without_id_is_skipped [where row = "[''ID'' \<mapsto> Missing, ''SME'' \<mapsto> Text ''rob'']"
      and pre = "[]" and post = "[]"
      and execute = "pg_execute null_defaults 0" and ?c0.0 = Map.empty and expert_map = Map.empty,
      THEN conjunct1]
    row_without_id_is_skipped [where row = "[''ID'' \<mapsto> Text [], ''SME'' \<mapsto> Text ''rob'']"
      and pre = "[]" and post = "[]"
      and execute = "pg_execute null_defaults 0" and ?c0.0 = Map.empty and expert_map = Map.empty,
      THEN conjunct2]
  show ?thesis
    by (simp add: Let_def) (simp add: import_pe_problems_def import_ib_problems_def)
qed

text \<open>
  A sheet without the column \<open>ID\<close> is another matter: \<open>row['ID']\<close> raises \<open>KeyError\<close>, which
  the \<open>except\<close> clause records like any other exception of the row.
\<close>

lemma missing_id_label_raises:
  assumes "row ''ID'' = None"
  shows "pe_statement row expert_map = Inl (KeyError ''ID'')"
    and "ib_statement row expert_map = Inl (KeyError ''ID'')"
  using assms
  by (simp_all add: pe_statement_def ib_statement_def problem_id_of_def row_item_def bind_err_def)

lemma import_row_counts:
  "(imported (import_row prepare execute m s ir) = imported s + 1 \<and>
    skipped (import_row prepare execute m s ir) = skipped s \<and>
    errors (import_row prepare execute m s ir) = errors s)
   \<or>
   (imported (import_row prepare execute m s ir) = imported s \<and>
    skipped (import_row prepare execute m s ir) = skipped s + 1 \<and>
    length (errors (import_row prepare execute m s ir)) \<le> length (errors s) + 1)"
  by (auto simp: import_row_def try_row_def split: sum.splits option.splits prod.splits outcome.splits)

lemma import_loop_counts:
  "imported (import_loop prepare execute m s irs) + skipped (import_loop prepare execute m s irs)
     = imported s + skipped s + length irs \<and>
   length (errors (import_loop prepare execute m s irs)) + skipped s
     \<le> length (errors s) + skipped (import_loop prepare execute m s irs)"
proof (induction irs arbitrary: s)
  case Nil
  then show ?case by simp
next
  case (Cons ir irs)
  from import_row_counts [of prepare execute m s ir] Cons.IH [of "import_row prepare execute m s ir"]
  show ?case by auto
qed

text \<open>
  C10. In either importer, for any behaviour of \<open>cursor.execute\<close>: at the end of the loop
  the imported and the skipped counts add up to the number of rows of the sheet, and the
  error list is no longer than the skipped count; and one turn of the loop increments
  exactly one of the two counts by one and leaves the other.
\<close>

theorem counters_account_for_every_row:
  "(let s = import_pe_problems execute c0 expert_map df in
      imported s + skipped s = length df \<and> length (errors s) \<le> skipped s)
   \<and>
   (let s = import_ib_problems execute c0 expert_map df in
      imported s + skipped s = length df \<and> length (errors s) \<le> skipped s)
   \<and>
   (let s' = import_row prepare execute expert_map s ir in
      (imported s' = imported s + 1 \<and> skipped s' = skipped s) \<or>
      (imported s' = imported s \<and> skipped s' = skipped s + 1))"
proof -
  have pe: "let s = import_pe_problems execute c0 expert_map df in
      imported s + skipped s = length df \<and> length (errors s) \<le> skipped s"
    using import_loop_counts [of pe_statement execute expert_map
        "\<lparr>conn = c0, imported = 0, skipped = 0, errors = []\<rparr>" "enumerate 0 df"]
    by (simp add: import_pe_problems_def Let_def)
  have ib: "let s = import_ib_problems execute c0 expert_map df in
      imported s + skipped s = length df \<and> length (errors s) \<le> skipped s"
    using import_loop_counts [of ib_statement execute expert_map
        "\<lparr>conn = c0, imported = 0, skipped = 0, errors = []\<rparr>" "enumerate 0 df"]
    by (simp add: import_ib_problems_def Let_def)
  have step: "let s' = import_row prepare execute expert_map s ir in
      (imported s' = imported s + 1 \<and> skipped s' = skipped s) \<or>
      (imported s' = imported s \<and> skipped s' = skipped s + 1)"
    using import_row_counts [of prepare execute expert_map s ir]
    by (auto simp: Let_def)
  from pe ib step show ?thesis by blast
qed

subsection \<open>The upsert\<close>

text \<open>
  C8. With the roster \<open>[(1, "Robert Alward"), (2, "Jerry Song")]\<close> and the one PE row
  \<open>{ID: "P-100", SME: "rob", Spec #: 5, Status: "Done"}\<close>, whatever the table held before,
  whatever its column defaults and the time: the row is imported without error, and the
  table then has a row for \<open>problem_id = "P-100"\<close> and \<open>environment = PE\<close> with \<open>sme_id = 1\<close>,
  \<open>spec_number = 5\<close>, \<open>status = "Done"\<close> and \<open>source = "legacy_sheets"\<close>.
\<close>

theorem p100_end_to_end:
  "\<exists>m. get_expert_id_map [(1, ''Robert Alward''), (2, ''Jerry Song'')] = Inr m \<and>
     m ''rob'' = None \<and> map_of aliases ''rob'' = Some ''robert alward'' \<and>
     m ''robert alward'' = Some 1 \<and>
     (let s = import_pe_problems (pg_execute defaults now) db m
                [[''ID'' \<mapsto> Text ''P-100'', ''SME'' \<mapsto> Text ''rob'', ''Spec #'' \<mapsto> Num 5,
                  ''Status'' \<mapsto> Text ''Done'']]
      in imported s = 1 \<and> skipped s = 0 \<and> errors s = [] \<and>
        (\<exists>r. conn s (''P-100'', PE) = Some r \<and> sme_id (cols r) = Some 1 \<and>
          spec_number (cols r) = Some 5 \<and> status (cols r) = Some ''Done'' \<and>
          source r = ''legacy_sheets''))"
  by (simp add: get_expert_id_map_def register_expert_def loop_eval pe_statement_def row_eval
      string_eval Let_def split: option.splits)

lemma without_updated_at_eq_iff:
  "without_updated_at r = without_updated_at r' \<longleftrightarrow>
   cols r = cols r' \<and> explainer_video r = explainer_video r' \<and> source r = source r' \<and>
   created_at r = created_at r'"
  by (cases r, cases r') (simp add: without_updated_at_def)

lemma written_cong:
  "without_updated_at r = without_updated_at r' \<Longrightarrow>
   without_updated_at (written stmt r) = without_updated_at (written stmt r')"
  by (cases stmt) (simp_all add: without_updated_at_eq_iff written_def)

lemma written_absorb:
  "key_of x = key_of stmt \<Longrightarrow> written x (written stmt r) = written x r"
  by (cases x; cases stmt) (simp_all add: written_def)

lemma written_updated:
  "without_updated_at (written x (r\<lparr>updated_at := u\<rparr>)) = without_updated_at (written x r)"
  by (cases x) (simp_all add: written_def without_updated_at_def)

lemma upsert_lookup:
  "upsert d t db stmt k =
     (if key_of stmt = k then
        (case db k of
           None \<Rightarrow> Some (written stmt (row_before d t None))
         | Some r \<Rightarrow> Some ((written stmt r)\<lparr>updated_at := Some t\<rparr>))
      else db k)"
  by (cases stmt) (auto simp: upsert_def written_def row_before_def split: option.splits)

lemma upsert_without_updated_at:
  "table_without_updated_at (upsert d t db stmt) k =
     (if key_of stmt = k then Some (without_updated_at (written stmt (row_before d t (db k))))
      else table_without_updated_at db k)"
  by (cases stmt) (auto simp: table_without_updated_at_def upsert_def written_def row_before_def without_updated_at_def split: option.splits)

lemma row_before_upsert:
  "key_of stmt = k \<Longrightarrow> key_of x = k \<Longrightarrow>
   without_updated_at (written x (row_before d t (upsert d t db stmt k))) =
   without_updated_at (written x (row_before d t (db k)))"
  by (cases "db k") (simp_all add: upsert_lookup row_before_def written_absorb written_updated)

lemma last_statement_key: "last_statement k stmts = Some x \<Longrightarrow> key_of x = k"
  by (induction stmts) (auto split: option.splits if_splits)

lemma foldl_upsert_lookup:
  "table_without_updated_at (foldl (upsert d t) db stmts) k =
     (case last_statement k stmts of
        None \<Rightarrow> table_without_updated_at db k
      | Some x \<Rightarrow> Some (without_updated_at (written x (row_before d t (db k)))))"
proof (induction stmts arbitrary: db)
  case Nil
  then show ?case by simp
next
  case (Cons stmt stmts)
  show ?case
  proof (cases "last_statement k stmts")
    case None
    then show ?thesis
      by (simp add: Cons.IH upsert_without_updated_at)
  next
    case (Some x)
    then have kx: "key_of x = k" by (rule last_statement_key)
    show ?thesis
    proof (cases "key_of stmt = k")
      case True
      then show ?thesis
        using Some kx by (simp add: Cons.IH row_before_upsert)
    next
      case False
      then have "upsert d t db stmt k = db k" by (simp add: upsert_lookup)
      then show ?thesis
        using Some by (simp add: Cons.IH)
    qed
  qed
qed

lemma second_run_same_table:
  "table_without_updated_at (foldl (upsert d t2) (foldl (upsert d t1) db stmts) stmts) =
   table_without_updated_at (foldl (upsert d t1) db stmts)"
proof
  fix k
  let ?db1 = "foldl (upsert d t1) db stmts"
  show "table_without_updated_at (foldl (upsert d t2) ?db1 stmts) k = table_without_updated_at ?db1 k"
  proof (cases "last_statement k stmts")
    case None
    then show ?thesis by (simp add: foldl_upsert_lookup)
  next
    case (Some x)
    then have kx: "key_of x = k" by (rule last_statement_key)
    from Some have one: "table_without_updated_at ?db1 k =
        Some (without_updated_at (written x (row_before d t1 (db k))))"
      by (simp add: foldl_upsert_lookup)
    then obtain r1 where r1: "?db1 k = Some r1"
      and eq: "without_updated_at r1 = without_updated_at (written x (row_before d t1 (db k)))"
      by (auto simp: table_without_updated_at_def)
    have "without_updated_at (written x r1) =
          without_updated_at (written x (written x (row_before d t1 (db k))))"
      by (rule written_cong [OF eq])
    also have "\<dots> = without_updated_at (written x (row_before d t1 (db k)))"
      by (simp add: written_absorb)
    finally show ?thesis
      using Some one r1 by (simp add: foldl_upsert_lookup [of d t2] row_before_def)
  qed
qed

lemma table_without_updated_at_dom:
  "table_without_updated_at db = table_without_updated_at db' \<Longrightarrow> dom db = dom db'"
proof -
  assume a: "table_without_updated_at db = table_without_updated_at db'"
  have "\<And>k. (db k = None) = (db' k = None)"
  proof -
    fix k
    from a have "table_without_updated_at db k = table_without_updated_at db' k" by simp
    then show "(db k = None) = (db' k = None)"
      by (cases "db k"; cases "db' k") (simp_all add: table_without_updated_at_def)
  qed
  then show ?thesis by (auto simp: dom_def)
qed

lemma upsert_stamps:
  "key_of stmt = k \<Longrightarrow> db k \<noteq> None \<Longrightarrow>
   \<exists>r. upsert d t db stmt k = Some r \<and> updated_at r = Some t \<and> source r = ''legacy_sheets''"
  by (cases stmt) (auto simp: upsert_lookup written_def)

lemma upsert_keeps_stamp:
  "db k = Some r \<Longrightarrow> updated_at r = Some t \<Longrightarrow> source r = ''legacy_sheets'' \<Longrightarrow>
   \<exists>r'. upsert d t db stmt k = Some r' \<and> updated_at r' = Some t \<and> source r' = ''legacy_sheets''"
  by (cases stmt) (auto simp: upsert_lookup written_def)

lemma foldl_upsert_keeps_stamp:
  "db k = Some r \<Longrightarrow> updated_at r = Some t \<Longrightarrow> source r = ''legacy_sheets'' \<Longrightarrow>
   \<exists>r'. foldl (upsert d t) db stmts k = Some r' \<and> updated_at r' = Some t \<and>
        source r' = ''legacy_sheets''"
proof (induction stmts arbitrary: db r)
  case Nil
  then show ?case by simp
next
  case (Cons stmt stmts)
  from Cons.prems upsert_keeps_stamp [where db = db and k = k and r = r and t = t and d = d
      and stmt = stmt]
  obtain r' where "upsert d t db stmt k = Some r'" "updated_at r' = Some t"
    "source r' = ''legacy_sheets''" by blast
  then have "\<exists>r''. foldl (upsert d t) (upsert d t db stmt) stmts k = Some r'' \<and>
      updated_at r'' = Some t \<and> source r'' = ''legacy_sheets''"
    by (rule Cons.IH)
  then show ?case by simp
qed

lemma foldl_upsert_stamps:
  "stmt \<in> set stmts \<Longrightarrow> db (key_of stmt) \<noteq> None \<Longrightarrow>
   \<exists>r. foldl (upsert d t) db stmts (key_of stmt) = Some r \<and> updated_at r = Some t \<and>
       source r = ''legacy_sheets''"
proof (induction stmts arbitrary: db)
  case Nil
  then show ?case by simp
next
  case (Cons x stmts)
  show ?case
  proof (cases "key_of x = key_of stmt")
    case True
    from True Cons.prems(2) upsert_stamps [where stmt = x and k = "key_of stmt" and db = db
        and d = d and t = t]
    obtain r where "upsert d t db x (key_of stmt) = Some r" "updated_at r = Some t"
      "source r = ''legacy_sheets''" by blast
    then have "\<exists>r'. foldl (upsert d t) (upsert d t db x) stmts (key_of stmt) = Some r' \<and>
        updated_at r' = Some t \<and> source r' = ''legacy_sheets''"
      by (rule foldl_upsert_keeps_stamp)
    then show ?thesis by simp
  next
    case False
    with Cons.prems have m: "stmt \<in> set stmts" by auto
    from False Cons.prems(2) have "upsert d t db x (key_of stmt) \<noteq> None"
      by (simp add: upsert_lookup)
    with m have "\<exists>r. foldl (upsert d t) (upsert d t db x) stmts (key_of stmt) = Some r \<and>
        updated_at r = Some t \<and> source r = ''legacy_sheets''"
      by (rule Cons.IH)
    then show ?thesis by simp
  qed
qed

lemma foldl_upsert_present:
  "stmt \<in> set stmts \<Longrightarrow> foldl (upsert d t) db stmts (key_of stmt) \<noteq> None"
proof -
  assume m: "stmt \<in> set stmts"
  then have "last_statement (key_of stmt) stmts \<noteq> None"
    by (induction stmts) (auto split: option.splits)
  then obtain x where "last_statement (key_of stmt) stmts = Some x" by blast
  then have "table_without_updated_at (foldl (upsert d t) db stmts) (key_of stmt) \<noteq> None"
    by (simp add: foldl_upsert_lookup)
  then show ?thesis by (auto simp: table_without_updated_at_def)
qed

lemma try_row_pg_execute:
  "try_row prepare (pg_execute d t) m c row =
     (case prepare row m of
        Inl e \<Rightarrow> (Raised e, c)
      | Inr None \<Rightarrow> (Continue, c)
      | Inr (Some stmt) \<Rightarrow> (Executed, upsert d t c stmt))"
  by (simp add: try_row_def pg_execute_def split: sum.splits option.splits)

lemma import_row_pg_conn:
  "conn (import_row prepare (pg_execute d t) m s ir) =
   foldl (upsert d t) (conn s) (statements_of prepare m [snd ir])"
  by (simp add: import_row_def try_row_pg_execute split: sum.splits option.splits)

lemma statements_of_append:
  "statements_of prepare m (xs @ ys) = statements_of prepare m xs @ statements_of prepare m ys"
  by (induction xs) (simp_all split: sum.splits option.splits)

lemma import_loop_pg_conn:
  "conn (import_loop prepare (pg_execute d t) m s irs) =
   foldl (upsert d t) (conn s) (statements_of prepare m (map snd irs))"
proof (induction irs arbitrary: s)
  case Nil
  then show ?case by simp
next
  case (Cons ir irs)
  have "statements_of prepare m (map snd (ir # irs)) =
        statements_of prepare m [snd ir] @ statements_of prepare m (map snd irs)"
    using statements_of_append [of prepare m "[snd ir]" "map snd irs"] by simp
  then show ?case
    by (simp add: Cons.IH import_row_pg_conn del: statements_of.simps)
qed

lemma import_row_pg_counters:
  "imported s = imported s' \<Longrightarrow> skipped s = skipped s' \<Longrightarrow> errors s = errors s' \<Longrightarrow>
   imported (import_row prepare (pg_execute d t) m s ir) =
     imported (import_row prepare (pg_execute d' t') m s' ir) \<and>
   skipped (import_row prepare (pg_execute d t) m s ir) =
     skipped (import_row prepare (pg_execute d' t') m s' ir) \<and>
   errors (import_row prepare (pg_execute d t) m s ir) =
     errors (import_row prepare (pg_execute d' t') m s' ir)"
  by (simp add: import_row_def try_row_pg_execute split: sum.splits option.splits)

lemma import_loop_pg_counters:
  "imported s = imported s' \<Longrightarrow> skipped s = skipped s' \<Longrightarrow> errors s = errors s' \<Longrightarrow>
   imported (import_loop prepare (pg_execute d t) m s irs) =
     imported (import_loop prepare (pg_execute d' t') m s' irs) \<and>
   skipped (import_loop prepare (pg_execute d t) m s irs) =
     skipped (import_loop prepare (pg_execute d' t') m s' irs) \<and>
   errors (import_loop prepare (pg_execute d t) m s irs) =
     errors (import_loop prepare (pg_execute d' t') m s' irs)"
proof (induction irs arbitrary: s s')
  case Nil
  then show ?case by simp
next
  case (Cons ir irs)
  from import_row_pg_counters [OF Cons.prems, of prepare d t m ir d' t']
  have "imported (import_row prepare (pg_execute d t) m s ir) =
          imported (import_row prepare (pg_execute d' t') m s' ir)"
    and "skipped (import_row prepare (pg_execute d t) m s ir) =
          skipped (import_row prepare (pg_execute d' t') m s' ir)"
    and "errors (import_row prepare (pg_execute d t) m s ir) =
          errors (import_row prepare (pg_execute d' t') m s' ir)"
    by simp_all
  from Cons.IH [OF this] show ?case by simp
qed

lemma second_loop:
  assumes s1_def: "s1 = import_loop prepare (pg_execute d t1) m
      \<lparr>conn = db, imported = 0, skipped = 0, errors = []\<rparr> (enumerate 0 df)"
    and s2_def: "s2 = import_loop prepare (pg_execute d t2) m
      \<lparr>conn = conn s1, imported = 0, skipped = 0, errors = []\<rparr> (enumerate 0 df)"
  shows "dom (conn s2) = dom (conn s1)"
    and "table_without_updated_at (conn s2) = table_without_updated_at (conn s1)"
    and "imported s2 = imported s1" and "skipped s2 = skipped s1" and "errors s2 = errors s1"
    and "\<forall>stmt \<in> set (statements_of prepare m df).
           \<exists>r. conn s2 (key_of stmt) = Some r \<and> updated_at r = Some t2 \<and>
               source r = ''legacy_sheets''"
proof -
  let ?stmts = "statements_of prepare m df"
  have c1: "conn s1 = foldl (upsert d t1) db ?stmts"
    by (simp add: s1_def import_loop_pg_conn map_snd_enumerate)
  have c2: "conn s2 = foldl (upsert d t2) (conn s1) ?stmts"
    by (simp add: s2_def import_loop_pg_conn map_snd_enumerate)
  show same: "table_without_updated_at (conn s2) = table_without_updated_at (conn s1)"
    by (simp add: c2 c1 second_run_same_table)
  then show "dom (conn s2) = dom (conn s1)"
    by (rule table_without_updated_at_dom)
  have "imported s2 = imported s1 \<and> skipped s2 = skipped s1 \<and> errors s2 = errors s1"
    unfolding s1_def s2_def by (rule import_loop_pg_counters) simp_all
  then show "imported s2 = imported s1" and "skipped s2 = skipped s1" and "errors s2 = errors s1"
    by simp_all
  show "\<forall>stmt \<in> set ?stmts.
           \<exists>r. conn s2 (key_of stmt) = Some r \<and> updated_at r = Some t2 \<and>
               source r = ''legacy_sheets''"
  proof
    fix stmt
    assume m: "stmt \<in> set ?stmts"
    then have "conn s1 (key_of stmt) \<noteq> None"
      by (simp add: c1 foldl_upsert_present)
    with m show "\<exists>r. conn s2 (key_of stmt) = Some r \<and> updated_at r = Some t2 \<and>
               source r = ''legacy_sheets''"
      unfolding c2 by (rule foldl_upsert_stamps)
  qed
qed

text \<open>
  C2. In either importer, on a table that accepts every row: let the importer run on a
  sheet at time \<open>t1\<close>, and run again on the same sheet, at time \<open>t2\<close>, against the table the
  first run left. After the second run the table has the same keys as after the first,
  every row has the same columns but for \<open>updated_at\<close>, and the counts and the error list
  of the two runs are the same; every row that a statement of the sheet writes has
  \<open>updated_at = t2\<close> and \<open>source = "legacy_sheets"\<close>.
\<close>

theorem second_import_changes_only_updated_at:
  "(let s1 = import_pe_problems (pg_execute defaults t1) db expert_map df;
        s2 = import_pe_problems (pg_execute defaults t2) (conn s1) expert_map df
    in dom (conn s2) = dom (conn s1) \<and>
       table_without_updated_at (conn s2) = table_without_updated_at (conn s1) \<and>
       imported s2 = imported s1 \<and> skipped s2 = skipped s1 \<and> errors s2 = errors s1 \<and>
       (\<forall>stmt \<in> set (statements_of pe_statement expert_map df).
          \<exists>r. conn s2 (key_of stmt) = Some r \<and> updated_at r = Some t2 \<and>
              source r = ''legacy_sheets''))
   \<and>
   (let s1 = import_ib_problems (pg_execute defaults t1) db expert_map df;
        s2 = import_ib_problems (pg_execute defaults t2) (conn s1) expert_map df
    in dom (conn s2) = dom (conn s1) \<and>
       table_without_updated_at (conn s2) = table_without_updated_at (conn s1) \<and>
       imported s2 = imported s1 \<and> skipped s2 = skipped s1 \<and> errors s2 = errors s1 \<and>
       (\<forall>stmt \<in> set (statements_of ib_statement expert_map df).
          \<exists>r. conn s2 (key_of stmt) = Some r \<and> updated_at r = Some t2 \<and>
              source r = ''legacy_sheets''))"
  unfolding Let_def import_pe_problems_def import_ib_problems_def
  using second_loop [OF refl refl, where prepare = pe_statement and d = defaults and ?t1.0 = t1
      and ?t2.0 = t2 and m = expert_map and db = db and df = df]
    second_loop [OF refl refl, where prepare = ib_statement and d = defaults and ?t1.0 = t1
      and ?t2.0 = t2 and m = expert_map and db = db and df = df]
  by blast

theorem second_import_changes_only_updated_at_witness:
  "(let s1 = import_pe_problems (pg_execute null_defaults 10)
               [(''P-100'', PE) \<mapsto> null_defaults 1] [''robert alward'' \<mapsto> 1] [p100_row];
        s2 = import_pe_problems (pg_execute null_defaults 20) (conn s1)
               [''robert alward'' \<mapsto> 1] [p100_row]
    in table_without_updated_at (conn s2) = table_without_updated_at (conn s1) \<and>
       imported s2 = 1 \<and>
       (\<exists>r. conn s2 (''P-100'', PE) = Some r \<and> updated_at r = Some 20 \<and>
          source r = ''legacy_sheets''))
   \<and>
   (let s1 = import_ib_problems (pg_execute null_defaults 10)
               [(''P-100'', PE) \<mapsto> null_defaults 1] [''robert alward'' \<mapsto> 1] [p100_row];
        s2 = import_ib_problems (pg_execute null_defaults 20) (conn s1)
               [''robert alward'' \<mapsto> 1] [p100_row]
    in table_without_updated_at (conn s2) = table_without_updated_at (conn s1) \<and>
       imported s2 = 1 \<and>
       (\<exists>r. conn s2 (''P-100'', IB) = Some r \<and> updated_at r = Some 20 \<and>
          source r = ''legacy_sheets''))"
proof -
  note inst = second_import_changes_only_updated_at [where defaults = null_defaults
      and ?t1.0 = 10 and ?t2.0 = 20 and db = "[(''P-100'', PE) \<mapsto> null_defaults 1]"
      and expert_map = "[''robert alward'' \<mapsto> 1]" and df = "[p100_row]"]
  have pe: "\<exists>v video. statements_of pe_statement [''robert alward'' \<mapsto> 1] [p100_row] =
      [UpsertPE ''P-100'' v video]"
    by (simp add: pe_statement_def row_eval string_eval p100_row_def)
  have ib: "\<exists>v. statements_of ib_statement [''robert alward'' \<mapsto> 1] [p100_row] =
      [UpsertIB ''P-100'' v]"
    by (simp add: ib_statement_def row_eval string_eval p100_row_def)
  have pe1: "imported (import_pe_problems (pg_execute null_defaults 10)
               [(''P-100'', PE) \<mapsto> null_defaults 1] [''robert alward'' \<mapsto> 1] [p100_row]) = 1"
    by (simp add: loop_eval pe_statement_def row_eval string_eval p100_row_def)
  have ib1: "imported (import_ib_problems (pg_execute null_defaults 10)
               [(''P-100'', PE) \<mapsto> null_defaults 1] [''robert alward'' \<mapsto> 1] [p100_row]) = 1"
    by (simp add: loop_eval ib_statement_def row_eval string_eval p100_row_def)
  from pe obtain v video where "statements_of pe_statement [''robert alward'' \<mapsto> 1] [p100_row] =
      [UpsertPE ''P-100'' v video]" by blast
  with inst [THEN conjunct1] pe1 have one: "let s1 = import_pe_problems (pg_execute null_defaults 10)
               [(''P-100'', PE) \<mapsto> null_defaults 1] [''robert alward'' \<mapsto> 1] [p100_row];
        s2 = import_pe_problems (pg_execute null_defaults 20) (conn s1)
               [''robert alward'' \<mapsto> 1] [p100_row]
    in table_without_updated_at (conn s2) = table_without_updated_at (conn s1) \<and>
       imported s2 = 1 \<and>
       (\<exists>r. conn s2 (''P-100'', PE) = Some r \<and> updated_at r = Some 20 \<and>
          source r = ''legacy_sheets'')"
    by (simp add: Let_def)
  from ib obtain w where "statements_of ib_statement [''robert alward'' \<mapsto> 1] [p100_row] =
      [UpsertIB ''P-100'' w]" by blast
  with inst [THEN conjunct2] ib1 have two: "let s1 = import_ib_problems (pg_execute null_defaults 10)
               [(''P-100'', PE) \<mapsto> null_defaults 1] [''robert alward'' \<mapsto> 1] [p100_row];
        s2 = import_ib_problems (pg_execute null_defaults 20) (conn s1)
               [''robert alward'' \<mapsto> 1] [p100_row]
    in table_without_updated_at (conn s2) = table_without_updated_at (conn s1) \<and>
       imported s2 = 1 \<and>
       (\<exists>r. conn s2 (''P-100'', IB) = Some r \<and> updated_at r = Some 20 \<and>
          source r = ''legacy_sheets'')"
    by (simp add: Let_def)
  from one two show ?thesis by blast
qed

subsection \<open>The second reviewer\<close>

lemma bind_err_Inr: "bind_err (Inr v) f = f v"
  by (simp add: bind_err_def)

lemma other_column:
  assumes "k \<noteq> k'"
  shows "row_get (row(k' \<mapsto> a)) k = row_get row k"
    and "row_item (row(k' \<mapsto> a)) k = row_item row k"
    and "int_or_none (row(k' \<mapsto> a)) k = int_or_none row k"
    and "str_or_none (row(k' \<mapsto> a)) k = str_or_none row k"
    and "bool_or_false (row(k' \<mapsto> a)) k = bool_or_false row k"
  using assms
  by (simp_all add: row_get_def row_item_def int_or_none_def str_or_none_def bool_or_false_def)

lemma problem_id_of_other_column:
  "k' \<noteq> ''ID'' \<Longrightarrow> problem_id_of (row(k' \<mapsto> a)) = problem_id_of row"
  by (simp add: problem_id_of_def row_item_def cong: if_cong)

text \<open>
  The result of the \<open>Reviewer 2\<close> lookup is not passed on: two rows that differ only in
  that cell send the same statement, or skip alike, whenever \<open>resolve_expert_name\<close> returns
  on both cells.
\<close>

lemma reviewer2_unused:
  assumes "resolve_expert_name a expert_map = Inr x"
    and "resolve_expert_name b expert_map = Inr y"
  shows "pe_statement (row(''Reviewer 2'' \<mapsto> a)) expert_map =
         pe_statement (row(''Reviewer 2'' \<mapsto> b)) expert_map"
    and "ib_statement (row(''Reviewer 2'' \<mapsto> a)) expert_map =
         ib_statement (row(''Reviewer 2'' \<mapsto> b)) expert_map"
proof -
  have a: "row_get (row(''Reviewer 2'' \<mapsto> a)) ''Reviewer 2'' = a"
    and b: "row_get (row(''Reviewer 2'' \<mapsto> b)) ''Reviewer 2'' = b"
    by (simp_all add: row_get_def)
  show "pe_statement (row(''Reviewer 2'' \<mapsto> a)) expert_map =
         pe_statement (row(''Reviewer 2'' \<mapsto> b)) expert_map"
    by (simp add: pe_statement_def other_column problem_id_of_other_column a b assms
        bind_err_Inr cong: option.case_cong if_cong)
  show "ib_statement (row(''Reviewer 2'' \<mapsto> a)) expert_map =
         ib_statement (row(''Reviewer 2'' \<mapsto> b)) expert_map"
    by (simp add: ib_statement_def other_column problem_id_of_other_column a b assms
        bind_err_Inr cong: option.case_cong if_cong)
qed

text \<open>
  C9 at two one-row sheets that differ only in the \<open>Reviewer 2\<close> cell, one space in the
  first and \<open>x\<close> in the second, in either importer: the first sheet's row is skipped with an
  entry in the error list and nothing is written, the second sheet's row is imported.
\<close>

theorem reviewer2_whitespace_changes_outcome:
  "(let s = import_pe_problems (pg_execute null_defaults 0) Map.empty Map.empty
             [[''ID'' \<mapsto> Text ''P-1'', ''Reviewer 2'' \<mapsto> Text '' '']];
        s' = import_pe_problems (pg_execute null_defaults 0) Map.empty Map.empty
             [[''ID'' \<mapsto> Text ''P-1'', ''Reviewer 2'' \<mapsto> Text ''x'']]
    in imported s = 0 \<and> skipped s = 1 \<and> errors s = [''Row 0: list index out of range''] \<and>
       conn s (''P-1'', PE) = None \<and>
       imported s' = 1 \<and> skipped s' = 0 \<and> errors s' = [] \<and> conn s' (''P-1'', PE) \<noteq> None)
   \<and>
   (let s = import_ib_problems (pg_execute null_defaults 0) Map.empty Map.empty
             [[''ID'' \<mapsto> Text ''P-1'', ''Reviewer 2'' \<mapsto> Text '' '']];
        s' = import_ib_problems (pg_execute null_defaults 0) Map.empty Map.empty
             [[''ID'' \<mapsto> Text ''P-1'', ''Reviewer 2'' \<mapsto> Text ''x'']]
    in imported s = 0 \<and> skipped s = 1 \<and> errors s = [''Row 0: list index out of range''] \<and>
       conn s (''P-1'', IB) = None \<and>
       imported s' = 1 \<and> skipped s' = 0 \<and> errors s' = [] \<and> conn s' (''P-1'', IB) \<noteq> None)"
  by (simp add: loop_eval pe_statement_def ib_statement_def row_eval string_eval str_nat.simps
      digit_char_def Let_def)

end
